theory Spec2Isabelle
  imports Complex_Main "HOL-Library.Sublist"
begin

section \<open>JavaScript values\<close>

text \<open>
  The dashboard (\<^verbatim>\<open>src/App.jsx\<close>) is JavaScript. Its numbers are modelled by \<open>jsnum\<close>:
  a finite value \<open>Fin r\<close> with \<open>r\<close> real, or one of \<open>NaN\<close>, \<open>PosInf\<close>, \<open>NegInf\<close>.
  Finite values are exact: the rounding of a decimal literal or of an arithmetic result to
  the nearest double is not modelled, except that a literal at or above the overflow
  threshold becomes an infinity. The two zeros are one value.

  The loosely typed values found in GeoJSON property bags are modelled by \<open>jv\<close>:
  \<^verbatim>\<open>undefined\<close> (a missing member), \<^verbatim>\<open>null\<close>, booleans, numbers, strings, and
  \<open>JOpaque s\<close> for any object, array or function, carrying the string \<open>s\<close> that
  \<^verbatim>\<open>String(value)\<close> produces for it. Strings are lists of code units below 256.
\<close>

datatype jsnum = Fin real | NaN | PosInf | NegInf

datatype jv = JUndefined | JNull | JBool bool | JNum jsnum | JStr string | JOpaque string

fun negate :: "jsnum \<Rightarrow> jsnum" where
  "negate (Fin r) = Fin (- r)"
| "negate NaN = NaN"
| "negate PosInf = NegInf"
| "negate NegInf = PosInf"

fun isNaN :: "jsnum \<Rightarrow> bool" where
  "isNaN NaN = True"
| "isNaN _ = False"

text \<open>Truthiness, as used by \<^verbatim>\<open>||\<close>, \<^verbatim>\<open>!\<close> and the conditional operator.\<close>

fun truthy :: "jv \<Rightarrow> bool" where
  "truthy JUndefined = False"
| "truthy JNull = False"
| "truthy (JBool b) = b"
| "truthy (JNum (Fin r)) = (r \<noteq> 0)"
| "truthy (JNum NaN) = False"
| "truthy (JNum PosInf) = True"
| "truthy (JNum NegInf) = True"
| "truthy (JStr s) = (s \<noteq> [])"
| "truthy (JOpaque s) = True"

text \<open>The nullish coalescing operator \<^verbatim>\<open>a ?? b\<close>.\<close>

definition coalesce :: "jv \<Rightarrow> jv \<Rightarrow> jv" where
  "coalesce a b = (if a = JNull \<or> a = JUndefined then b else a)"

subsection \<open>String trimming\<close>

text \<open>
  \<^verbatim>\<open>String.prototype.trim\<close> removes white space and line terminators from both ends.
  Below code unit 256 these are TAB, LF, VT, FF, CR, SPACE and NO-BREAK SPACE.
\<close>

definition isWhiteSpace :: "char \<Rightarrow> bool" where
  "isWhiteSpace c = (c \<in> set [CHR 0x09, CHR 0x0A, CHR 0x0B, CHR 0x0C, CHR 0x0D, CHR 0x20, CHR 0xA0])"

definition trimStart :: "string \<Rightarrow> string" where
  "trimStart s = dropWhile isWhiteSpace s"

definition trimEnd :: "string \<Rightarrow> string" where
  "trimEnd s = rev (dropWhile isWhiteSpace (rev s))"

definition trim :: "string \<Rightarrow> string" where
  "trim s = trimEnd (trimStart s)"

subsection \<open>Numeric literals: \<^verbatim>\<open>parseFloat\<close> and \<^verbatim>\<open>Number\<close>\<close>

text \<open>
  Both built-ins read the ECMAScript grammar \<open>StrDecimalLiteral\<close>: an optional sign, then
  either \<^verbatim>\<open>Infinity\<close>, or digits with an optional fraction, or a dot followed by digits,
  and then an optional exponent part, which counts only when at least one digit follows
  the exponent marker and its optional sign. \<open>scanDecimal\<close> returns the value of the
  longest such prefix and the unread rest. \<^verbatim>\<open>parseFloat\<close> skips leading white space and
  ignores the rest; \<^verbatim>\<open>Number\<close> trims both ends, maps the empty string to 0 and requires
  the rest to be empty. \<open>js_Number\<close> does not read the prefixed literals \<^verbatim>\<open>0x\<close>,
  \<^verbatim>\<open>0o\<close>, \<^verbatim>\<open>0b\<close>: its only caller passes strings from which the letters
  \<^verbatim>\<open>x\<close>, \<^verbatim>\<open>o\<close>, \<^verbatim>\<open>b\<close> have been removed. A value of magnitude at least
  \<open>2^1024 - 2^970\<close> rounds to an infinity.
\<close>

definition isDigit :: "char \<Rightarrow> bool" where
  "isDigit c = (c \<in> set ''0123456789'')"

definition digitValue :: "char \<Rightarrow> nat" where
  "digitValue c = of_char c - 48"

definition digitsValue :: "string \<Rightarrow> nat" where
  "digitsValue ds = foldl (\<lambda>acc c. 10 * acc + digitValue c) 0 ds"

definition scanExponent :: "string \<Rightarrow> int \<times> string" where
  "scanExponent s =
     (case s of
        [] \<Rightarrow> (0, s)
      | c # r \<Rightarrow>
          if c = CHR ''e'' \<or> c = CHR ''E'' then
            (let neg = (r \<noteq> [] \<and> hd r = CHR ''-'');
                 r' = (if r \<noteq> [] \<and> (hd r = CHR ''+'' \<or> hd r = CHR ''-'') then tl r else r);
                 ds = takeWhile isDigit r'
             in if ds = [] then (0, s)
                else (if neg then - int (digitsValue ds) else int (digitsValue ds),
                      dropWhile isDigit r'))
          else (0, s))"

definition scale10 :: "nat \<Rightarrow> int \<Rightarrow> real" where
  "scale10 m e = (if 0 \<le> e then real m * 10 ^ nat e else real m / 10 ^ nat (- e))"

definition overflowThreshold :: real where
  "overflowThreshold = 2 ^ 1024 - 2 ^ 970"

definition roundedNumber :: "real \<Rightarrow> jsnum" where
  "roundedNumber r = (if overflowThreshold \<le> r then PosInf else Fin r)"

definition scanUnsignedDecimal :: "string \<Rightarrow> (jsnum \<times> string) option" where
  "scanUnsignedDecimal s =
     (if prefix ''Infinity'' s then Some (PosInf, drop 8 s)
      else
        let ip = takeWhile isDigit s;
            r1 = dropWhile isDigit s;
            hasDot = (r1 \<noteq> [] \<and> hd r1 = CHR ''.'');
            fp = (if hasDot then takeWhile isDigit (tl r1) else []);
            r2 = (if hasDot then dropWhile isDigit (tl r1) else r1)
        in if ip = [] \<and> fp = [] then None
           else (let (e, r3) = scanExponent r2
                 in Some (roundedNumber (scale10 (digitsValue (ip @ fp)) (e - int (length fp))), r3)))"

definition scanDecimal :: "string \<Rightarrow> (jsnum \<times> string) option" where
  "scanDecimal s =
     (case s of
        [] \<Rightarrow> None
      | c # r \<Rightarrow>
          if c = CHR ''+'' then scanUnsignedDecimal r
          else if c = CHR ''-'' then map_option (\<lambda>(v, rest). (negate v, rest)) (scanUnsignedDecimal r)
          else scanUnsignedDecimal s)"

definition parseFloat :: "string \<Rightarrow> jsnum" where
  "parseFloat s = (case scanDecimal (trimStart s) of None \<Rightarrow> NaN | Some (v, rest) \<Rightarrow> v)"

definition js_Number :: "string \<Rightarrow> jsnum" where
  "js_Number s =
     (let t = trim s
      in if t = [] then Fin 0
         else (case scanDecimal t of
                 None \<Rightarrow> NaN
               | Some (v, rest) \<Rightarrow> if rest = [] then v else NaN))"

section \<open>Value Parser\<close>

text \<open>
  \<^verbatim>\<open>parseNumericValue\<close> (App.jsx, lines 6-12). \<^verbatim>\<open>String(value)\<close> is \<open>js_String\<close>; the
  digits it prints for a finite number are the parameter \<open>fmt\<close>, which the parser never
  reaches because finite numbers are returned before the conversion. The regular
  expression \<^verbatim>\<open>/[^0-9eE.+-]/g\<close> deletes every character that \<open>keptChar\<close> rejects.
  The result \<open>None\<close> is \<^verbatim>\<open>null\<close>.
\<close>

fun js_String :: "(real \<Rightarrow> string) \<Rightarrow> jv \<Rightarrow> string" where
  "js_String fmt JUndefined = ''undefined''"
| "js_String fmt JNull = ''null''"
| "js_String fmt (JBool b) = (if b then ''true'' else ''false'')"
| "js_String fmt (JNum (Fin r)) = fmt r"
| "js_String fmt (JNum NaN) = ''NaN''"
| "js_String fmt (JNum PosInf) = ''Infinity''"
| "js_String fmt (JNum NegInf) = ''-Infinity''"
| "js_String fmt (JStr s) = s"
| "js_String fmt (JOpaque s) = s"

definition keptChar :: "char \<Rightarrow> bool" where
  "keptChar c = (isDigit c \<or> c \<in> set ''eE.+-'')"

definition parseNumericValue :: "(real \<Rightarrow> string) \<Rightarrow> jv \<Rightarrow> real option" where
  "parseNumericValue fmt v =
     (if v = JNull \<or> v = JUndefined then None
      else (case v of
              JNum (Fin r) \<Rightarrow> Some r
            | _ \<Rightarrow> (let cleaned = filter keptChar (js_String fmt v)
                    in case js_Number cleaned of Fin parsed \<Rightarrow> Some parsed | _ \<Rightarrow> None)))"

section \<open>Side-Table Joiner\<close>

text \<open>
  The loader of \<^verbatim>\<open>FL_CRE.csv\<close> (App.jsx, lines 662-710). \<^verbatim>\<open>parseCSVLine\<close> is the loop of
  lines 668-685 with its three variables \<open>result\<close>, \<open>current\<close> and \<open>inQuotes\<close>.
  \<open>elemAt\<close> is array indexing, \<^verbatim>\<open>undefined\<close> (\<open>None\<close>) outside the array and so at the
  index \<open>-1\<close> that \<^verbatim>\<open>indexOf\<close> returns for a missing column. \<open>replaceFirst\<close> is
  \<^verbatim>\<open>String.prototype.replace\<close> with a string pattern: it replaces the first occurrence,
  wherever it is. \<open>obj_set\<close> is the assignment \<^verbatim>\<open>pred3PEMap[geoid] = pred3PE\<close> on an ordinary
  object: it creates or overwrites an own property, except under the key \<^verbatim>\<open>__proto__\<close>,
  where the inherited setter ignores a number.

  When the text has no non-blank line, \<^verbatim>\<open>parseCSVLine(lines[0])\<close> reads the length of
  \<^verbatim>\<open>undefined\<close> and throws; the surrounding \<^verbatim>\<open>try\<close> catches it and the mapping is not
  replaced. That outcome is \<open>Inl TypeError\<close>.
\<close>

datatype js_error = TypeError

fun parseCSVLine_loop :: "string \<Rightarrow> string list \<Rightarrow> string \<Rightarrow> bool \<Rightarrow> string list" where
  "parseCSVLine_loop [] result current inQuotes = result @ [trim current]"
| "parseCSVLine_loop (char # rest) result current inQuotes =
     (if char = CHR 0x22 then parseCSVLine_loop rest result current (\<not> inQuotes)
      else if char = CHR '','' \<and> \<not> inQuotes then parseCSVLine_loop rest (result @ [trim current]) [] inQuotes
      else parseCSVLine_loop rest result (current @ [char]) inQuotes)"

definition parseCSVLine :: "string \<Rightarrow> string list" where
  "parseCSVLine line = parseCSVLine_loop line [] [] False"

fun splitStr :: "char \<Rightarrow> string \<Rightarrow> string list" where
  "splitStr sep [] = [[]]"
| "splitStr sep (c # cs) =
     (if c = sep then [] # splitStr sep cs
      else (case splitStr sep cs of [] \<Rightarrow> [[c]] | l # ls \<Rightarrow> (c # l) # ls))"

fun indexOf :: "'a list \<Rightarrow> 'a \<Rightarrow> int" where
  "indexOf [] x = - 1"
| "indexOf (y # ys) x =
     (if y = x then 0 else (let r = indexOf ys x in if r < 0 then - 1 else r + 1))"

definition elemAt :: "'a list \<Rightarrow> int \<Rightarrow> 'a option" where
  "elemAt xs i = (if 0 \<le> i \<and> i < int (length xs) then Some (xs ! nat i) else None)"

fun replaceFirst :: "string \<Rightarrow> string \<Rightarrow> string \<Rightarrow> string" where
  "replaceFirst pat rep [] = (if pat = [] then rep else [])"
| "replaceFirst pat rep (c # cs) =
     (if prefix pat (c # cs) then rep @ drop (length pat) (c # cs)
      else c # replaceFirst pat rep cs)"

definition obj_set :: "(string \<rightharpoonup> jsnum) \<Rightarrow> string \<Rightarrow> jsnum \<Rightarrow> (string \<rightharpoonup> jsnum)" where
  "obj_set obj key v = (if key = ''__proto__'' then obj else obj(key \<mapsto> v))"

definition rowGeoId :: "int \<Rightarrow> string list \<Rightarrow> string option" where
  "rowGeoId geoIdIndex values = map_option trim (elemAt values geoIdIndex)"

definition rowPred3PE :: "int \<Rightarrow> string list \<Rightarrow> jsnum" where
  "rowPred3PE pred3PEIndex values =
     (case elemAt values pred3PEIndex of
        None \<Rightarrow> parseFloat ''undefined''
      | Some field \<Rightarrow> parseFloat (trim field))"

definition joinRow :: "int \<Rightarrow> int \<Rightarrow> (string \<rightharpoonup> jsnum) \<Rightarrow> string \<Rightarrow> (string \<rightharpoonup> jsnum)" where
  "joinRow geoIdIndex pred3PEIndex pred3PEMap line =
     (if trim line = [] then pred3PEMap
      else
        let values = parseCSVLine line
        in if int (length values) > max geoIdIndex pred3PEIndex then
             (let geoId = rowGeoId geoIdIndex values;
                  pred3PE = rowPred3PE pred3PEIndex values
              in case geoId of
                   None \<Rightarrow> pred3PEMap
                 | Some g \<Rightarrow>
                     if g \<noteq> [] \<and> \<not> isNaN pred3PE
                     then obj_set pred3PEMap (replaceFirst ''1400000US'' [] g) pred3PE
                     else pred3PEMap)
           else pred3PEMap)"

definition csvLines :: "string \<Rightarrow> string list" where
  "csvLines csvText = filter (\<lambda>line. trim line \<noteq> []) (splitStr CHR 0x0A csvText)"

definition loadPred3PE :: "string \<Rightarrow> js_error + (string \<rightharpoonup> jsnum)" where
  "loadPred3PE csvText =
     (case csvLines csvText of
        [] \<Rightarrow> Inl TypeError
      | header # rows \<Rightarrow>
          (let headers = parseCSVLine header;
               geoIdIndex = indexOf headers ''GEO_ID'';
               pred3PEIndex = indexOf headers ''PRED3_PE''
           in Inr (foldl (joinRow geoIdIndex pred3PEIndex) Map.empty rows)))"

text \<open>
  Three readings of a data row that the properties of the joiner are stated with: the value
  that \<^verbatim>\<open>parseFloat\<close> gives for its value field, whether the guard
  \<^verbatim>\<open>geoId && !isNaN(pred3PE)\<close> of line 699 lets it through, and the key under which it is
  then stored.
\<close>

definition rowValue :: "int \<Rightarrow> string \<Rightarrow> jsnum" where
  "rowValue pred3PEIndex line = rowPred3PE pred3PEIndex (parseCSVLine line)"

definition rowKept :: "int \<Rightarrow> int \<Rightarrow> string \<Rightarrow> bool" where
  "rowKept geoIdIndex pred3PEIndex line =
     (case rowGeoId geoIdIndex (parseCSVLine line) of
        None \<Rightarrow> False
      | Some g \<Rightarrow> g \<noteq> [] \<and> \<not> isNaN (rowValue pred3PEIndex line))"

definition rowKey :: "int \<Rightarrow> string \<Rightarrow> string" where
  "rowKey geoIdIndex line =
     (case rowGeoId geoIdIndex (parseCSVLine line) of
        None \<Rightarrow> []
      | Some g \<Rightarrow> replaceFirst ''1400000US'' [] g)"




section \<open>GeoJSON data\<close>

text \<open>
  A coordinates member is arbitrary JSON: \<open>coords\<close> keeps what the code tests, namely
  whether a value is an array, whether it is a number, and whether it is falsy. Coordinate
  numbers are finite and exact. A member that is absent is \<open>None\<close>; the other members of
  an object, which every spread \<^verbatim>\<open>{...x}\<close> copies, are kept in the \<open>others\<close> field of its
  record. The elements of a \<^verbatim>\<open>features\<close> array are objects.
\<close>

datatype coords = CNull | CBool bool | CNum real | CStr string | CArr "coords list"

record geometry =
  gtype :: string
  coordinates :: "coords option"
  gothers :: "(string \<times> jv) list"

record feature =
  fid :: jv
  geometry :: "geometry option"
  properties :: "(string \<times> jv) list option"
  fothers :: "(string \<times> jv) list"

record featureCollection =
  features :: "feature list option"
  cothers :: "(string \<times> jv) list"

section \<open>Coordinate Normalizer\<close>

text \<open>
  Lines 14-70 of App.jsx. \<^verbatim>\<open>toWgs84Coordinate\<close> destructures its argument into \<open>x\<close> and
  \<open>y\<close> and returns a new two-element array. \<^verbatim>\<open>transformToWgs84\<close> and the \<^verbatim>\<open>traverse\<close>
  closure of \<^verbatim>\<open>walkCoordinates\<close> treat an array whose first two elements are numbers as a
  coordinate pair and descend into every other array. \<open>traverse\<close> returns, in order, the
  pairs on which the callback is invoked; the callers only read elements 0 and 1 of them.
\<close>

definition originShift :: real where
  "originShift = 20037508.34"

definition toWgs84Coordinate :: "real \<times> real \<Rightarrow> real \<times> real" where
  "toWgs84Coordinate p =
     (let (x, y) = p;
          lon = (x / originShift) * 180;
          lat0 = (y / originShift) * 180;
          lat = (180 / pi) * (2 * arctan (exp ((lat0 * pi) / 180)) - pi / 2)
      in (lon, lat))"

text \<open>The test \<^verbatim>\<open>typeof coords[0] === 'number' && typeof coords[1] === 'number'\<close>.\<close>

fun numberPair :: "coords list \<Rightarrow> (real \<times> real) option" where
  "numberPair (CNum x # CNum y # rest) = Some (x, y)"
| "numberPair cs = None"

fun transformToWgs84 :: "coords \<Rightarrow> coords" where
  "transformToWgs84 (CArr cs) =
     (case numberPair cs of
        Some p \<Rightarrow> (let (lon, lat) = toWgs84Coordinate p in CArr [CNum lon, CNum lat])
      | None \<Rightarrow> CArr (map transformToWgs84 cs))"
| "transformToWgs84 c = c"

fun traverse :: "coords \<Rightarrow> (real \<times> real) list" where
  "traverse (CArr cs) =
     (case numberPair cs of
        Some p \<Rightarrow> [p]
      | None \<Rightarrow> concat (map traverse cs))"
| "traverse c = []"

fun coordsTruthy :: "coords option \<Rightarrow> bool" where
  "coordsTruthy None = False"
| "coordsTruthy (Some CNull) = False"
| "coordsTruthy (Some (CBool b)) = b"
| "coordsTruthy (Some (CNum x)) = (x \<noteq> 0)"
| "coordsTruthy (Some (CStr s)) = (s \<noteq> [])"
| "coordsTruthy (Some (CArr cs)) = True"

definition walkCoordinates :: "geometry option \<Rightarrow> (real \<times> real) list" where
  "walkCoordinates geom =
     (case geom of
        None \<Rightarrow> []
      | Some g \<Rightarrow>
          if \<not> coordsTruthy (coordinates g) then []
          else (case coordinates g of None \<Rightarrow> [] | Some c \<Rightarrow> traverse c))"

text \<open>
  The search loop of lines 45-52: features without geometry are skipped, and the loop
  stops at the first feature in which the callback has run.
\<close>

fun findFirstCoord :: "feature list \<Rightarrow> (real \<times> real) option" where
  "findFirstCoord [] = None"
| "findFirstCoord (f # fs) =
     (case geometry f of
        None \<Rightarrow> findFirstCoord fs
      | Some g \<Rightarrow>
          (case walkCoordinates (Some g) of
             [] \<Rightarrow> findFirstCoord fs
           | firstCoord # later \<Rightarrow> Some firstCoord))"

definition needsReprojection :: "real \<times> real \<Rightarrow> bool" where
  "needsReprojection firstCoord = (\<bar>fst firstCoord\<bar> > 180 \<or> \<bar>snd firstCoord\<bar> > 90)"

definition reprojectFeature :: "feature \<Rightarrow> feature" where
  "reprojectFeature f =
     (case geometry f of
        None \<Rightarrow> f
      | Some g \<Rightarrow>
          f\<lparr>geometry := Some (g\<lparr>coordinates := map_option transformToWgs84 (coordinates g)\<rparr>)\<rparr>)"

definition reprojectFeatureCollectionIfNeeded :: "featureCollection \<Rightarrow> featureCollection" where
  "reprojectFeatureCollectionIfNeeded featureCollection =
     (case features featureCollection of
        None \<Rightarrow> featureCollection
      | Some fs \<Rightarrow>
          if fs = [] then featureCollection
          else (case findFirstCoord fs of
                  None \<Rightarrow> featureCollection
                | Some firstCoord \<Rightarrow>
                    if \<not> needsReprojection firstCoord then featureCollection
                    else featureCollection\<lparr>features := Some (map reprojectFeature fs)\<rparr>))"

text \<open>
  The coordinate pairs reachable in a collection: those that \<^verbatim>\<open>walkCoordinates\<close> visits in
  the geometries of its features, in order.
\<close>

definition collectionPairs :: "featureCollection \<Rightarrow> (real \<times> real) list" where
  "collectionPairs fc =
     (case features fc of
        None \<Rightarrow> []
      | Some fs \<Rightarrow> concat (map (\<lambda>f. walkCoordinates (geometry f)) fs))"

definition inGeographicBounds :: "real \<times> real \<Rightarrow> bool" where
  "inGeographicBounds p = (\<bar>fst p\<bar> \<le> 180 \<and> \<bar>snd p\<bar> \<le> 90)"

section \<open>Feature Classifier\<close>

text \<open>
  Lines 720-744 of App.jsx. A property bag is an association list in property order;
  \<open>getProp\<close> reads a member (\<^verbatim>\<open>undefined\<close> when there is none, the three member names
  read here not being inherited ones) and \<open>setProp\<close> is what an object literal does with
  a key written after a spread: an existing member keeps its place and takes the new
  value, a new member goes to the end.

  \<open>obj_get\<close> reads the side-table mapping \<^verbatim>\<open>pred3PEDataRef.current[geoid]\<close>, an ordinary
  object: an own property if there is one, else a member inherited from
  \<^verbatim>\<open>Object.prototype\<close>, else \<^verbatim>\<open>undefined\<close>. The key is the GEOID converted to a string.
\<close>

definition getProp :: "(string \<times> jv) list \<Rightarrow> string \<Rightarrow> jv" where
  "getProp ps key = (case map_of ps key of None \<Rightarrow> JUndefined | Some v \<Rightarrow> v)"

fun setProp :: "(string \<times> jv) list \<Rightarrow> string \<Rightarrow> jv \<Rightarrow> (string \<times> jv) list" where
  "setProp [] key v = [(key, v)]"
| "setProp ((k, w) # ps) key v =
     (if k = key then (key, v) # ps else (k, w) # setProp ps key v)"

definition objectPrototypeMember :: "string \<Rightarrow> jv option" where
  "objectPrototypeMember key =
     (if key = ''__proto__'' then Some (JOpaque ''[object Object]'')
      else if key = ''constructor'' then Some (JOpaque ''function Object() { [native code] }'')
      else if key \<in> set [''__defineGetter__'', ''__defineSetter__'', ''hasOwnProperty'',
                          ''__lookupGetter__'', ''__lookupSetter__'', ''isPrototypeOf'',
                          ''propertyIsEnumerable'', ''toString'', ''valueOf'', ''toLocaleString'']
      then Some (JOpaque (''function '' @ key @ ''() { [native code] }''))
      else None)"

definition obj_get :: "(string \<rightharpoonup> jsnum) \<Rightarrow> string \<Rightarrow> jv" where
  "obj_get obj key =
     (case obj key of
        Some v \<Rightarrow> JNum v
      | None \<Rightarrow> (case objectPrototypeMember key of None \<Rightarrow> JUndefined | Some v \<Rightarrow> v))"

definition riskKey :: string where
  "riskKey = ''T_FEMA_National_Risk_Index_$_.FEMAIndexRating''"

definition populationKey :: string where
  "populationKey =
     ''T_CENSUS_Community_Resilience_Est$_.Total_population__excludes_adult_correctional_juvenile_facilitie''"

definition geoidKey :: string where
  "geoidKey = ''L0Census_Tracts.GEOID''"

definition numberOrNull :: "real option \<Rightarrow> jv" where
  "numberOrNull r = (case r of None \<Rightarrow> JNull | Some x \<Rightarrow> JNum (Fin x))"

definition featureProps :: "feature \<Rightarrow> (string \<times> jv) list" where
  "featureProps f = (case properties f of None \<Rightarrow> [] | Some ps \<Rightarrow> ps)"

definition featureGeoid :: "feature \<Rightarrow> jv" where
  "featureGeoid f = getProp (featureProps f) geoidKey"

definition enrichRisk :: "feature \<Rightarrow> jv" where
  "enrichRisk f = (let r = getProp (featureProps f) riskKey in if truthy r then r else JNull)"

definition enrichPopulation :: "(real \<Rightarrow> string) \<Rightarrow> feature \<Rightarrow> jv" where
  "enrichPopulation fmt f = numberOrNull (parseNumericValue fmt (getProp (featureProps f) populationKey))"

definition enrichPred3PE :: "(real \<Rightarrow> string) \<Rightarrow> (string \<rightharpoonup> jsnum) \<Rightarrow> feature \<Rightarrow> jv" where
  "enrichPred3PE fmt pred3PEData f =
     (let geoid = featureGeoid f;
          pred3PE = (if truthy geoid then obj_get pred3PEData (js_String fmt geoid) else JNull)
      in if pred3PE \<noteq> JNull \<and> pred3PE \<noteq> JUndefined then pred3PE else JNull)"

definition processFeature ::
  "(real \<Rightarrow> string) \<Rightarrow> (string \<rightharpoonup> jsnum) \<Rightarrow> nat \<Rightarrow> feature \<Rightarrow> feature" where
  "processFeature fmt pred3PEData index f =
     f\<lparr>fid := coalesce (coalesce (fid f) (featureGeoid f)) (JNum (Fin (real index))),
       properties :=
         Some (setProp
                (setProp
                  (setProp (featureProps f) ''__riskRating'' (enrichRisk f))
                  ''__population'' (enrichPopulation fmt f))
                ''__pred3PE'' (enrichPred3PE fmt pred3PEData f))\<rparr>"

text \<open>The list \<^verbatim>\<open>reprojected.features || []\<close> that the classifier maps over.\<close>

definition inputFeatures :: "featureCollection \<Rightarrow> feature list" where
  "inputFeatures reprojected = (case features reprojected of None \<Rightarrow> [] | Some fs \<Rightarrow> fs)"

definition processedFeatures ::
  "(real \<Rightarrow> string) \<Rightarrow> (string \<rightharpoonup> jsnum) \<Rightarrow> featureCollection \<Rightarrow> feature list" where
  "processedFeatures fmt pred3PEData reprojected =
     map (\<lambda>(index, f). processFeature fmt pred3PEData index f)
       (enumerate 0 (inputFeatures reprojected))"

definition processedGeojson ::
  "(real \<Rightarrow> string) \<Rightarrow> (string \<rightharpoonup> jsnum) \<Rightarrow> featureCollection \<Rightarrow> featureCollection" where
  "processedGeojson fmt pred3PEData reprojected =
     reprojected\<lparr>features := Some (processedFeatures fmt pred3PEData reprojected)\<rparr>"

text \<open>The names of the three enrichment fields.\<close>

definition enrichmentKeys :: "string set" where
  "enrichmentKeys = {''__riskRating'', ''__population'', ''__pred3PE''}"

section \<open>Statistics Builder\<close>

text \<open>
  \<^verbatim>\<open>getRangeStats\<close> (lines 72-78) and the sample lists of lines 749-754. A sample
  qualifies when \<^verbatim>\<open>Number.isFinite\<close> accepts it. \<^verbatim>\<open>Math.min\<close> and \<^verbatim>\<open>Math.max\<close> are
  only applied to a non-empty list of finite numbers. Of the statistics payload
  (lines 766-776) the record \<open>statsPayload\<close> keeps the two range statistics and their
  counts; the inventory of risk ratings is left out, as no property below reads it.
\<close>

record rangeStats =
  rmin :: "real option"
  rmid :: "real option"
  rmax :: "real option"

fun getRangeStats :: "real list \<Rightarrow> rangeStats" where
  "getRangeStats [] = \<lparr>rmin = None, rmid = None, rmax = None\<rparr>"
| "getRangeStats (v # vs) =
     (let mn = foldl min v vs;
          mx = foldl max v vs;
          mid = mn + (mx - mn) / 2
      in \<lparr>rmin = Some mn, rmid = Some mid, rmax = Some mx\<rparr>)"

fun finiteNumber :: "jv \<Rightarrow> real option" where
  "finiteNumber (JNum (Fin r)) = Some r"
| "finiteNumber v = None"

definition populationValues :: "feature list \<Rightarrow> real list" where
  "populationValues processed =
     List.map_filter finiteNumber (map (\<lambda>f. getProp (featureProps f) ''__population'') processed)"

definition pred3PEValues :: "feature list \<Rightarrow> real list" where
  "pred3PEValues processed =
     List.map_filter finiteNumber (map (\<lambda>f. getProp (featureProps f) ''__pred3PE'') processed)"

record statsPayload =
  population :: rangeStats
  pred3PE :: "rangeStats option"
  total :: nat
  missingPopulation :: nat
  missingPred3PE :: nat

definition buildStats :: "feature list \<Rightarrow> statsPayload" where
  "buildStats processed =
     \<lparr>population = getRangeStats (populationValues processed),
      pred3PE = Some (getRangeStats (pred3PEValues processed)),
      total = length processed,
      missingPopulation = length processed - length (populationValues processed),
      missingPred3PE = length processed - length (pred3PEValues processed)\<rparr>"

section \<open>Colour expression\<close>

text \<open>
  \<^verbatim>\<open>buildPred3PEColorExpression\<close> (lines 272-305) builds a style expression for the map
  renderer. \<open>expr\<close> has the operators it uses: a string or number literal, \<^verbatim>\<open>get\<close>,
  \<^verbatim>\<open>typeof\<close>, \<^verbatim>\<open>==\<close>, a \<^verbatim>\<open>case\<close> with one condition, and a linear \<^verbatim>\<open>interpolate\<close>
  over stops. The value of \<^verbatim>\<open>stats.pred3PE\<close> is an option because the code tests it
  for being undefined.

  \<open>evalExpr\<close> follows the renderer's expression semantics: \<^verbatim>\<open>get\<close> of a missing property
  is null, \<^verbatim>\<open>typeof\<close> names the type of its argument, \<^verbatim>\<open>case\<close> yields its first output
  when the condition is true and its last otherwise, and \<^verbatim>\<open>interpolate\<close> clamps outside
  the first and last stop and mixes the two neighbouring colours between them
  (\<open>MMix c d t\<close>). A colour is the string that names it.
\<close>

datatype expr =
    Lit jv
  | Get string
  | Typeof expr
  | Eq expr expr
  | Case expr expr expr
  | InterpolateLinear expr "(real \<times> string) list"

definition fallbackColor :: string where
  "fallbackColor = ''#9e9e9e''"

definition pred3PETest :: expr where
  "pred3PETest = Eq (Typeof (Get ''__pred3PE'')) (Lit (JStr ''number''))"

definition buildPred3PEColorExpression :: "rangeStats option \<Rightarrow> expr" where
  "buildPred3PEColorExpression pred3PEStats =
     (case pred3PEStats of
        None \<Rightarrow> Case pred3PETest (Lit (JStr ''#9e9e9e'')) (Lit (JStr ''#9e9e9e''))
      | Some st \<Rightarrow>
          (case (rmin st, rmax st) of
             (Some mn, Some mx) \<Rightarrow>
               if mn = mx
               then Case pred3PETest (Lit (JStr ''#4CAF50'')) (Lit (JStr ''#9e9e9e''))
               else Case pred3PETest
                      (InterpolateLinear (Get ''__pred3PE'')
                         [(mn, ''#4CAF50''),
                          (mn + (mx - mn) * 0.25, ''#8BC34A''),
                          (mn + (mx - mn) * 0.5, ''#FFC107''),
                          (mn + (mx - mn) * 0.75, ''#FF6F00''),
                          (mx, ''#B71C1C'')])
                      (Lit (JStr ''#9e9e9e''))
           | _ \<Rightarrow> Case pred3PETest (Lit (JStr ''#9e9e9e'')) (Lit (JStr ''#9e9e9e''))))"

datatype mval = MVal jv | MMix string string real | MError

fun typeName :: "jv \<Rightarrow> string" where
  "typeName JUndefined = ''null''"
| "typeName JNull = ''null''"
| "typeName (JBool b) = ''boolean''"
| "typeName (JNum n) = ''number''"
| "typeName (JStr s) = ''string''"
| "typeName (JOpaque s) = ''object''"

fun interpolateStops :: "real \<Rightarrow> (real \<times> string) list \<Rightarrow> mval" where
  "interpolateStops n [] = MError"
| "interpolateStops n [(s, c)] = MVal (JStr c)"
| "interpolateStops n ((s1, c1) # (s2, c2) # stops) =
     (if n \<le> s1 then MVal (JStr c1)
      else if n < s2 then MMix c1 c2 ((n - s1) / (s2 - s1))
      else interpolateStops n ((s2, c2) # stops))"

fun evalExpr :: "(string \<times> jv) list \<Rightarrow> expr \<Rightarrow> mval" where
  "evalExpr ps (Lit v) = MVal v"
| "evalExpr ps (Get key) =
     (case map_of ps key of None \<Rightarrow> MVal JNull | Some v \<Rightarrow> MVal (if v = JUndefined then JNull else v))"
| "evalExpr ps (Typeof e) =
     (case evalExpr ps e of
        MVal v \<Rightarrow> MVal (JStr (typeName v))
      | MMix c d t \<Rightarrow> MVal (JStr ''color'')
      | MError \<Rightarrow> MError)"
| "evalExpr ps (Eq a b) =
     (case (evalExpr ps a, evalExpr ps b) of
        (MVal v, MVal w) \<Rightarrow> MVal (JBool (v = w))
      | _ \<Rightarrow> MError)"
| "evalExpr ps (Case c out other) =
     (case evalExpr ps c of
        MVal (JBool True) \<Rightarrow> evalExpr ps out
      | MVal (JBool False) \<Rightarrow> evalExpr ps other
      | _ \<Rightarrow> MError)"
| "evalExpr ps (InterpolateLinear input stops) =
     (case evalExpr ps input of
        MVal (JNum (Fin n)) \<Rightarrow> interpolateStops n stops
      | MVal (JNum PosInf) \<Rightarrow> (if stops = [] then MError else MVal (JStr (snd (last stops))))
      | MVal (JNum NegInf) \<Rightarrow> (case stops of [] \<Rightarrow> MError | (s, c) # rest \<Rightarrow> MVal (JStr c))
      | _ \<Rightarrow> MError)"

section \<open>Point-in-polygon test\<close>

text \<open>
  \<^verbatim>\<open>isPointInDistrict\<close> (App.jsx, lines 154-168) is the even-odd ray-casting test. The
  \<^verbatim>\<open>for (let i = 0, j = n - 1; i < n; j = i++)\<close> loop becomes a recursion on \<open>i\<close> that
  carries \<open>j\<close> and the flag \<open>inside\<close>. Numbers are modelled as reals (finite values, exact
  arithmetic). For the empty list the source starts with \<open>j = -1\<close>, which is never read
  because the loop body does not run; the model starts with \<open>0 - 1 = 0\<close>, never read either.
  The division is only evaluated (\<^verbatim>\<open>&&\<close> short-circuits) when the two latitudes lie on
  different sides of \<open>lat\<close>, so its divisor is never zero when its value matters.
\<close>

function isPointInDistrict_loop ::
  "real \<Rightarrow> real \<Rightarrow> (real \<times> real) list \<Rightarrow> nat \<Rightarrow> nat \<Rightarrow> bool \<Rightarrow> bool" where
  "isPointInDistrict_loop lng lat districtCoords i j inside =
     (if i < length districtCoords then
        (let (xi, yi) = districtCoords ! i;
             (xj, yj) = districtCoords ! j;
             intersect = ((yi > lat) \<noteq> (yj > lat)) \<and>
                         (lng < (xj - xi) * (lat - yi) / (yj - yi) + xi)
         in isPointInDistrict_loop lng lat districtCoords (i + 1) i
              (if intersect then \<not> inside else inside))
      else inside)"
  by pat_completeness auto
termination
  by (relation "measure (\<lambda>(lng, lat, cs, i, j, inside). length cs - i)") auto

declare isPointInDistrict_loop.simps [simp del]

definition isPointInDistrict :: "real \<times> real \<Rightarrow> (real \<times> real) list \<Rightarrow> bool" where
  "isPointInDistrict point districtCoords =
     (let (lng, lat) = point
      in isPointInDistrict_loop lng lat districtCoords 0 (length districtCoords - 1) False)"

section \<open>Example data\<close>

text \<open>
  Four small collections, each with one line feature: one in geographic degrees near
  Miami, one whose first pair is in geographic range and whose second is not, and one in
  Web-Mercator metres, and one with an easting larger than the Mercator half-width.
\<close>

definition lineFeature :: "coords \<Rightarrow> feature" where
  "lineFeature cs =
     \<lparr>fid = JUndefined,
      geometry = Some \<lparr>gtype = ''LineString'', coordinates = Some cs, gothers = []\<rparr>,
      properties = None,
      fothers = [(''type'', JStr ''Feature'')]\<rparr>"

definition lineCollection :: "coords \<Rightarrow> featureCollection" where
  "lineCollection cs =
     \<lparr>features = Some [lineFeature cs], cothers = [(''type'', JStr ''FeatureCollection'')]\<rparr>"

definition exampleGeographic :: featureCollection where
  "exampleGeographic =
     lineCollection (CArr [CArr [CNum (- 80.2), CNum 25.7], CArr [CNum (- 80.1), CNum 25.8]])"

definition exampleMixed :: featureCollection where
  "exampleMixed = lineCollection (CArr [CArr [CNum 0, CNum 0], CArr [CNum 200, CNum 0]])"

definition exampleProjected :: featureCollection where
  "exampleProjected =
     lineCollection (CArr [CArr [CNum (- 8926000), CNum 2958000], CArr [CNum (- 8925000), CNum 2959000]])"

definition exampleBeyond :: featureCollection where
  "exampleBeyond = lineCollection (CArr [CArr [CNum 30000000, CNum 0]])"


definition exampleRow :: string where
  \<open>exampleRow = ''"1400000US12086000107","3.14"''\<close>



definition exampleCsvNoGeoId :: string where
  "exampleCsvNoGeoId = ''TRACT,PRED3_PE'' @ [CHR 0x0A] @ exampleRow"



text \<open>
  Three census tracts: one with a source id and all three source properties, one with a
  GEOID only and a property that already bears the name of an enrichment field, and one
  with a null id and no properties. Their GEOIDs are strings, so the number format
  \<open>noFormat\<close> passed to the classifier for them is never applied.
\<close>

definition noFormat :: "real \<Rightarrow> string" where
  "noFormat r = []"

definition tract :: "jv \<Rightarrow> (string \<times> jv) list option \<Rightarrow> feature" where
  "tract i ps =
     \<lparr>fid = i,
      geometry = Some \<lparr>gtype = ''Polygon'',
                       coordinates = Some (CArr [CArr [CArr [CNum (- 80.2), CNum 25.7],
                                                       CArr [CNum (- 80.1), CNum 25.7],
                                                       CArr [CNum (- 80.1), CNum 25.8],
                                                       CArr [CNum (- 80.2), CNum 25.7]]]),
                       gothers = []\<rparr>,
      properties = ps,
      fothers = [(''type'', JStr ''Feature'')]\<rparr>"

definition tractA :: feature where
  "tractA = tract (JNum (Fin 7)) (Some [(riskKey, JStr ''Very High''),
                                        (geoidKey, JStr ''12086000107''),
                                        (populationKey, JStr ''4,321'')])"

definition tractB :: feature where
  "tractB = tract JUndefined (Some [(geoidKey, JStr ''12086000108''),
                                    (''__riskRating'', JStr ''stale'')])"

definition tractC :: feature where
  "tractC = tract JNull None"

definition exampleTractList :: "feature list" where
  "exampleTractList = [tractA, tractB, tractC]"

definition exampleTracts :: featureCollection where
  "exampleTracts =
     \<lparr>features = Some exampleTractList, cothers = [(''type'', JStr ''FeatureCollection'')]\<rparr>"

text \<open>
  A tract whose GEOID is the name of a member that every object inherits, and whose
  population is a text without a number.
\<close>

definition tractD :: feature where
  "tractD = tract JUndefined (Some [(geoidKey, JStr ''constructor''),
                                    (populationKey, JStr ''N/A'')])"

definition exampleOddTracts :: featureCollection where
  "exampleOddTracts =
     \<lparr>features = Some [tractD], cothers = [(''type'', JStr ''FeatureCollection'')]\<rparr>"

section \<open>Evaluation rules\<close>

text \<open>The definitions that a concrete evaluation of the string and number functions unfolds.\<close>

lemmas js_string_defs = trim_def trimStart_def trimEnd_def isWhiteSpace_def isDigit_def
lemmas js_number_defs = js_Number_def parseFloat_def scanDecimal_def scanUnsignedDecimal_def
  scanExponent_def roundedNumber_def scale10_def digitsValue_def digitValue_def overflowThreshold_def

lemmas example_defs = lineCollection_def lineFeature_def collectionPairs_def walkCoordinates_def
lemmas csv_defs = parseCSVLine_def joinRow_def rowGeoId_def rowPred3PE_def elemAt_def obj_set_def
lemmas key_defs = riskKey_def populationKey_def geoidKey_def

section \<open>Properties of the Value Parser\<close>

text \<open>
  Claim C1. The documented test vectors of \<^verbatim>\<open>parseNumericValue\<close>: \<^verbatim>\<open>"$1,234.56"\<close> gives
  1234.56, \<^verbatim>\<open>"12.5%"\<close> gives 12.5 and \<^verbatim>\<open>null\<close> gives \<^verbatim>\<open>null\<close>. For \<^verbatim>\<open>"abc"\<close> the
  documented result is \<^verbatim>\<open>null\<close>, but the function returns 0: every character is
  removed, and \<^verbatim>\<open>Number("")\<close> is 0, which is finite.
\<close>

theorem parseNumericValue_test_vectors:
  "parseNumericValue fmt (JStr ''$1,234.56'') = Some 1234.56 \<and>
   parseNumericValue fmt (JStr ''12.5%'') = Some 12.5 \<and>
   parseNumericValue fmt JNull = None \<and>
   parseNumericValue fmt (JStr ''abc'') = Some 0"
  by (simp add: parseNumericValue_def keptChar_def js_string_defs js_number_defs)

section \<open>Properties of the Coordinate Normalizer\<close>

lemma findFirstCoord_concat:
  "findFirstCoord fs =
     (case concat (map (\<lambda>f. walkCoordinates (geometry f)) fs) of
        [] \<Rightarrow> None | c # cs \<Rightarrow> Some c)"
proof (induction fs)
  case Nil
  show ?case by simp
next
  case (Cons f fs)
  show ?case
  proof (cases "geometry f")
    case None
    with Cons show ?thesis by (simp add: walkCoordinates_def)
  next
    case (Some g)
    with Cons show ?thesis by (cases "walkCoordinates (Some g)") simp_all
  qed
qed

lemma needsReprojection_iff: "needsReprojection p \<longleftrightarrow> \<not> inGeographicBounds p"
  by (auto simp: needsReprojection_def inGeographicBounds_def)

lemma reproject_unchanged_if_first_in_bounds:
  assumes "collectionPairs fc = [] \<or> inGeographicBounds (hd (collectionPairs fc))"
  shows "reprojectFeatureCollectionIfNeeded fc = fc"
proof (cases "features fc")
  case None
  then show ?thesis by (simp add: reprojectFeatureCollectionIfNeeded_def)
next
  case (Some fs)
  show ?thesis
  proof (cases "concat (map (\<lambda>f. walkCoordinates (geometry f)) fs)")
    case Nil
    then have "findFirstCoord fs = None"
      by (simp only: findFirstCoord_concat list.case)
    with Some show ?thesis
      by (simp add: reprojectFeatureCollectionIfNeeded_def)
  next
    case (Cons c cs)
    then have first: "findFirstCoord fs = Some c"
      by (simp only: findFirstCoord_concat list.case)
    from Some Cons assms have "inGeographicBounds c"
      by (simp add: collectionPairs_def)
    with Some first show ?thesis
      by (simp add: reprojectFeatureCollectionIfNeeded_def needsReprojection_iff)
  qed
qed

lemma no_geometry_no_pairs:
  assumes "features fc = None \<or> (\<exists>fs. features fc = Some fs \<and> (\<forall>f \<in> set fs. geometry f = None))"
  shows "collectionPairs fc = []"
  using assms by (auto simp: collectionPairs_def walkCoordinates_def)

lemma transformToWgs84_CNum_iff: "transformToWgs84 c = CNum v \<longleftrightarrow> c = CNum v"
  by (cases c) (simp_all split: option.splits prod.splits)

lemma numberPair_None_map:
  assumes "numberPair cs = None"
  shows "numberPair (map transformToWgs84 cs) = None"
proof (rule ccontr)
  assume "numberPair (map transformToWgs84 cs) \<noteq> None"
  then obtain x y rest where "map transformToWgs84 cs = CNum x # CNum y # rest"
    by (cases "map transformToWgs84 cs" rule: numberPair.cases) auto
  then obtain rest' where "cs = CNum x # CNum y # rest'"
    by (auto simp: map_eq_Cons_conv transformToWgs84_CNum_iff)
  with assms show False by simp
qed

lemma traverse_transformToWgs84:
  "traverse (transformToWgs84 c) = map toWgs84Coordinate (traverse c)"
proof (induction c)
  case (CArr cs)
  show ?case
  proof (cases "numberPair cs")
    case (Some p)
    then show ?thesis by (simp split: prod.splits)
  next
    case None
    have "concat (map traverse (map transformToWgs84 cs)) =
          map toWgs84Coordinate (concat (map traverse cs))"
      using CArr.IH by (induction cs) simp_all
    with None numberPair_None_map [OF None] show ?thesis by simp
  qed
qed simp_all

lemma coordsTruthy_transform:
  "coordsTruthy (Some (transformToWgs84 c)) = coordsTruthy (Some c)"
  by (cases c) (simp_all split: option.splits prod.splits)

lemma walkCoordinates_reprojectFeature:
  "walkCoordinates (geometry (reprojectFeature f)) =
     map toWgs84Coordinate (walkCoordinates (geometry f))"
proof (cases "geometry f")
  case None
  then show ?thesis by (simp add: reprojectFeature_def walkCoordinates_def)
next
  case (Some g)
  then show ?thesis
    by (cases "coordinates g")
       (simp_all add: reprojectFeature_def walkCoordinates_def coordsTruthy_transform
                      traverse_transformToWgs84 del: coordsTruthy.simps)
qed

lemma latitude_range: "\<bar>snd (toWgs84Coordinate (x, y))\<bar> < 90"
proof -
  define t where "t = arctan (exp ((y / originShift * 180 * pi) / 180))"
  have pos: "0 < t" unfolding t_def by (simp add: zero_less_arctan_iff)
  have ub: "t < pi / 2" unfolding t_def by (rule arctan_ubound)
  have lat: "snd (toWgs84Coordinate (x, y)) = (180 / pi) * (2 * t - pi / 2)"
    by (simp add: toWgs84Coordinate_def t_def Let_def)
  have a: "0 < t / pi" using pos by simp
  have b: "t / pi < 1 / 2" using ub by (simp add: field_simps)
  have "snd (toWgs84Coordinate (x, y)) = 360 * (t / pi) - 90"
    unfolding lat by (simp add: field_simps)
  with a b show ?thesis by linarith
qed

lemma longitude_range:
  assumes "\<bar>x\<bar> \<le> originShift"
  shows "\<bar>fst (toWgs84Coordinate (x, y))\<bar> \<le> 180"
proof -
  have pos: "0 < originShift" by (simp add: originShift_def)
  have "fst (toWgs84Coordinate (x, y)) = (x / originShift) * 180"
    by (simp add: toWgs84Coordinate_def Let_def)
  moreover have "\<bar>x / originShift\<bar> \<le> 1"
    using assms pos by (simp add: abs_divide)
  then have "\<bar>x / originShift\<bar> * 180 \<le> 1 * 180"
    by (intro mult_right_mono) simp_all
  ultimately show ?thesis by (simp add: abs_mult)
qed

lemma collectionPairs_reprojected:
  assumes "collectionPairs fc \<noteq> []" and "needsReprojection (hd (collectionPairs fc))"
  shows "collectionPairs (reprojectFeatureCollectionIfNeeded fc) =
         map toWgs84Coordinate (collectionPairs fc)"
proof -
  from assms(1) obtain fs where fs: "features fc = Some fs"
    by (cases "features fc") (auto simp: collectionPairs_def)
  with assms(1) obtain c cs where
    cons: "concat (map (\<lambda>f. walkCoordinates (geometry f)) fs) = c # cs"
    by (cases "concat (map (\<lambda>f. walkCoordinates (geometry f)) fs)")
       (auto simp: collectionPairs_def)
  then have first: "findFirstCoord fs = Some c"
    by (simp only: findFirstCoord_concat list.case)
  from cons have ne: "fs \<noteq> []" by auto
  from fs cons assms(2) have "needsReprojection c" by (simp add: collectionPairs_def)
  with fs first ne have
    "reprojectFeatureCollectionIfNeeded fc = fc\<lparr>features := Some (map reprojectFeature fs)\<rparr>"
    by (simp add: reprojectFeatureCollectionIfNeeded_def)
  then show ?thesis
    using fs
    by (simp add: collectionPairs_def o_def walkCoordinates_reprojectFeature map_concat)
qed

text \<open>
  Claim C2, as stated: every coordinate pair of every returned collection lies within
  \<open>|x| \<le> 180\<close> and \<open>|y| \<le> 90\<close>. It fails in two ways. Only the first pair found is
  inspected, so \<open>exampleMixed\<close> comes back unchanged with its pair \<open>(200, 0)\<close>; and the
  inverse projection maps an easting beyond the Mercator half-width to a longitude
  beyond 180, as in \<open>exampleBeyond\<close>.
\<close>

theorem normalizer_output_out_of_bounds:
  "(200, 0) \<in> set (collectionPairs (reprojectFeatureCollectionIfNeeded exampleMixed)) \<and>
   \<not> inGeographicBounds (200, 0) \<and>
   toWgs84Coordinate (30000000, 0) \<in> set (collectionPairs (reprojectFeatureCollectionIfNeeded exampleBeyond)) \<and>
   \<not> inGeographicBounds (toWgs84Coordinate (30000000, 0))"
proof -
  have mixed: "collectionPairs exampleMixed = [(0, 0), (200, 0)]"
    by (simp add: exampleMixed_def example_defs)
  then have "reprojectFeatureCollectionIfNeeded exampleMixed = exampleMixed"
    by (intro reproject_unchanged_if_first_in_bounds) (simp add: inGeographicBounds_def)
  with mixed have m: "(200, 0) \<in> set (collectionPairs (reprojectFeatureCollectionIfNeeded exampleMixed))"
    by simp
  have beyond: "collectionPairs exampleBeyond = [(30000000, 0)]"
    by (simp add: exampleBeyond_def example_defs)
  then have "collectionPairs (reprojectFeatureCollectionIfNeeded exampleBeyond) =
             map toWgs84Coordinate (collectionPairs exampleBeyond)"
    by (intro collectionPairs_reprojected) (simp_all add: needsReprojection_def)
  with beyond have b: "toWgs84Coordinate (30000000, 0) \<in>
      set (collectionPairs (reprojectFeatureCollectionIfNeeded exampleBeyond))"
    by simp
  have "fst (toWgs84Coordinate (30000000, 0)) > 180"
    by (simp add: toWgs84Coordinate_def originShift_def Let_def)
  then have nb: "\<not> inGeographicBounds (toWgs84Coordinate (30000000, 0))"
    by (simp add: inGeographicBounds_def)
  from m b nb show ?thesis by (simp add: inGeographicBounds_def)
qed

text \<open>
  Claim C2, amended. Every coordinate pair reachable in the returned collection satisfies
  \<open>|x| \<le> 180\<close> and \<open>|y| \<le> 90\<close>, provided that either every pair of the input already
  satisfies these bounds, or the first pair found in the input violates them and every
  pair of the input has \<open>|x| \<le> 20037508.34\<close>.
\<close>

theorem normalizer_output_within_bounds:
  assumes "(\<forall>p \<in> set (collectionPairs fc). inGeographicBounds p) \<or>
           (collectionPairs fc \<noteq> [] \<and> needsReprojection (hd (collectionPairs fc)) \<and>
            (\<forall>p \<in> set (collectionPairs fc). \<bar>fst p\<bar> \<le> originShift))"
  shows "\<forall>q \<in> set (collectionPairs (reprojectFeatureCollectionIfNeeded fc)). inGeographicBounds q"
  using assms
proof
  assume inb: "\<forall>p \<in> set (collectionPairs fc). inGeographicBounds p"
  then have "collectionPairs fc = [] \<or> inGeographicBounds (hd (collectionPairs fc))"
    by (cases "collectionPairs fc") simp_all
  then have "reprojectFeatureCollectionIfNeeded fc = fc"
    by (rule reproject_unchanged_if_first_in_bounds)
  with inb show ?thesis by simp
next
  assume proj: "collectionPairs fc \<noteq> [] \<and> needsReprojection (hd (collectionPairs fc)) \<and>
            (\<forall>p \<in> set (collectionPairs fc). \<bar>fst p\<bar> \<le> originShift)"
  then have eq: "collectionPairs (reprojectFeatureCollectionIfNeeded fc) =
         map toWgs84Coordinate (collectionPairs fc)"
    by (simp add: collectionPairs_reprojected)
  show ?thesis
  proof
    fix q assume "q \<in> set (collectionPairs (reprojectFeatureCollectionIfNeeded fc))"
    with eq obtain p where p: "p \<in> set (collectionPairs fc)" and q: "q = toWgs84Coordinate p"
      by auto
    obtain x y where xy: "p = (x, y)" by (cases p)
    from proj p xy have "\<bar>x\<bar> \<le> originShift" by auto
    then have "\<bar>fst q\<bar> \<le> 180" unfolding q xy by (rule longitude_range)
    moreover have "\<bar>snd q\<bar> < 90" unfolding q xy by (rule latitude_range)
    ultimately show "inGeographicBounds q" by (simp add: inGeographicBounds_def)
  qed
qed

theorem normalizer_output_within_bounds_witness:
  "collectionPairs exampleProjected = [(- 8926000, 2958000), (- 8925000, 2959000)] \<and>
   needsReprojection (- 8926000, 2958000) \<and>
   \<bar>- 8926000\<bar> \<le> originShift \<and> \<bar>- 8925000\<bar> \<le> originShift \<and>
   collectionPairs (reprojectFeatureCollectionIfNeeded exampleProjected) =
     [toWgs84Coordinate (- 8926000, 2958000), toWgs84Coordinate (- 8925000, 2959000)] \<and>
   inGeographicBounds (toWgs84Coordinate (- 8926000, 2958000)) \<and>
   inGeographicBounds (toWgs84Coordinate (- 8925000, 2959000))"
proof -
  have pairs: "collectionPairs exampleProjected = [(- 8926000, 2958000), (- 8925000, 2959000)]"
    by (simp add: exampleProjected_def example_defs)
  have first: "needsReprojection (- 8926000, 2958000)"
    by (simp add: needsReprojection_def)
  have range: "\<bar>- 8926000\<bar> \<le> originShift" "\<bar>- 8925000\<bar> \<le> originShift"
    by (simp_all add: originShift_def)
  have hyp: "(\<forall>p \<in> set (collectionPairs exampleProjected). inGeographicBounds p) \<or>
    (collectionPairs exampleProjected \<noteq> [] \<and>
     needsReprojection (hd (collectionPairs exampleProjected)) \<and>
     (\<forall>p \<in> set (collectionPairs exampleProjected). \<bar>fst p\<bar> \<le> originShift))"
    unfolding pairs using first range by simp
  have out: "collectionPairs (reprojectFeatureCollectionIfNeeded exampleProjected) =
     [toWgs84Coordinate (- 8926000, 2958000), toWgs84Coordinate (- 8925000, 2959000)]"
    using collectionPairs_reprojected [of exampleProjected] first
    by (simp add: pairs)
  from normalizer_output_within_bounds [OF hyp]
  have "inGeographicBounds (toWgs84Coordinate (- 8926000, 2958000))"
    and "inGeographicBounds (toWgs84Coordinate (- 8925000, 2959000))"
    unfolding out by simp_all
  with pairs first range out show ?thesis by (intro conjI)
qed

text \<open>
  Claim C3. A collection in which every coordinate pair of every feature lies within
  \<open>[-180,180] \<times> [-90,90]\<close> is returned unchanged, and so is a collection that has no
  features array, an empty one, or only features without geometry.
\<close>

theorem normalizer_identity_within_bounds:
  assumes "(\<forall>p \<in> set (collectionPairs fc). inGeographicBounds p) \<or>
           features fc = None \<or> features fc = Some [] \<or>
           (\<exists>fs. features fc = Some fs \<and> (\<forall>f \<in> set fs. geometry f = None))"
  shows "reprojectFeatureCollectionIfNeeded fc = fc"
proof -
  from assms have "(\<forall>p \<in> set (collectionPairs fc). inGeographicBounds p) \<or>
                   collectionPairs fc = []"
    using no_geometry_no_pairs [of fc] by auto
  then have "collectionPairs fc = [] \<or> inGeographicBounds (hd (collectionPairs fc))"
    by (cases "collectionPairs fc") auto
  then show ?thesis by (rule reproject_unchanged_if_first_in_bounds)
qed

theorem normalizer_identity_within_bounds_witness:
  "collectionPairs exampleGeographic = [(- 80.2, 25.7), (- 80.1, 25.8)] \<and>
   inGeographicBounds (- 80.2, 25.7) \<and> inGeographicBounds (- 80.1, 25.8) \<and>
   reprojectFeatureCollectionIfNeeded exampleGeographic = exampleGeographic \<and>
   reprojectFeatureCollectionIfNeeded \<lparr>features = Some [], cothers = []\<rparr> =
     \<lparr>features = Some [], cothers = []\<rparr>"
proof -
  have pairs: "collectionPairs exampleGeographic = [(- 80.2, 25.7), (- 80.1, 25.8)]"
    by (simp add: exampleGeographic_def example_defs)
  have inb: "inGeographicBounds (- 80.2, 25.7)" "inGeographicBounds (- 80.1, 25.8)"
    by (simp_all add: inGeographicBounds_def)
  then have hyp: "\<forall>p \<in> set (collectionPairs exampleGeographic). inGeographicBounds p"
    unfolding pairs by simp
  have same: "reprojectFeatureCollectionIfNeeded exampleGeographic = exampleGeographic"
    using hyp by (intro normalizer_identity_within_bounds) blast
  have empty: "reprojectFeatureCollectionIfNeeded \<lparr>features = Some [], cothers = []\<rparr> =
     \<lparr>features = Some [], cothers = []\<rparr>"
    by (intro normalizer_identity_within_bounds) simp
  from pairs inb same empty show ?thesis by (intro conjI)
qed

section \<open>Properties of the Side-Table Joiner\<close>

lemma indexOf_absent: "x \<notin> set xs \<Longrightarrow> indexOf xs x = - 1"
  by (induction xs) (auto simp: Let_def)

lemma parseFloat_undefined: "parseFloat ''undefined'' = NaN"
  by (simp add: js_number_defs js_string_defs)

lemma rowPred3PE_outside:
  "\<not> (0 \<le> i \<and> i < int (length values)) \<Longrightarrow> rowPred3PE i values = NaN"
  by (auto simp: rowPred3PE_def elemAt_def parseFloat_undefined)

lemma rowGeoId_outside:
  "\<not> (0 \<le> i \<and> i < int (length values)) \<Longrightarrow> rowGeoId i values = None"
  by (simp add: rowGeoId_def elemAt_def)

lemma trim_Nil_iff: "trim s = [] \<longleftrightarrow> (\<forall>c \<in> set s. isWhiteSpace c)"
proof
  assume "trim s = []"
  then have "\<forall>c \<in> set (dropWhile isWhiteSpace s). isWhiteSpace c"
    by (simp add: trim_def trimEnd_def trimStart_def dropWhile_eq_Nil_conv)
  moreover have "dropWhile isWhiteSpace s \<noteq> [] \<Longrightarrow> \<not> isWhiteSpace (hd (dropWhile isWhiteSpace s))"
    by (rule hd_dropWhile)
  ultimately have "dropWhile isWhiteSpace s = []"
    by (cases "dropWhile isWhiteSpace s") auto
  then show "\<forall>c \<in> set s. isWhiteSpace c"
    by (simp add: dropWhile_eq_Nil_conv)
next
  assume "\<forall>c \<in> set s. isWhiteSpace c"
  then have "dropWhile isWhiteSpace s = []" by (simp add: dropWhile_eq_Nil_conv)
  then show "trim s = []" by (simp only: trim_def trimEnd_def trimStart_def rev.simps dropWhile.simps)
qed

lemma whitespace_not_separator:
  "isWhiteSpace c \<Longrightarrow> c \<noteq> CHR 0x22 \<and> c \<noteq> CHR '',''"
  by (auto simp: isWhiteSpace_def)

lemma parseCSVLine_loop_blank:
  "\<forall>c \<in> set line. isWhiteSpace c \<Longrightarrow>
   parseCSVLine_loop line result current inQuotes = result @ [trim (current @ line)]"
proof (induction line arbitrary: current)
  case Nil
  show ?case by simp
next
  case (Cons c line)
  then have "c \<noteq> CHR 0x22" "c \<noteq> CHR '',''" and rest: "\<forall>c \<in> set line. isWhiteSpace c"
    using whitespace_not_separator by auto
  then show ?case using Cons.IH [OF rest, of "current @ [c]"] by simp
qed

lemma parseCSVLine_blank: "trim line = [] \<Longrightarrow> parseCSVLine line = [[]]"
  by (simp add: parseCSVLine_def parseCSVLine_loop_blank trim_Nil_iff)

lemma rowKept_blank: "trim line = [] \<Longrightarrow> \<not> rowKept geoIdIndex pred3PEIndex line"
  by (simp add: rowKept_def parseCSVLine_blank rowGeoId_def elemAt_def trim_def trimStart_def trimEnd_def)

lemma rowKept_short:
  assumes "\<not> int (length (parseCSVLine line)) > max geoIdIndex pred3PEIndex"
  shows "\<not> rowKept geoIdIndex pred3PEIndex line"
proof (cases "geoIdIndex < int (length (parseCSVLine line))")
  case False
  then show ?thesis by (simp add: rowKept_def rowGeoId_outside)
next
  case True
  with assms have "\<not> pred3PEIndex < int (length (parseCSVLine line))" by simp
  then have "rowValue pred3PEIndex line = NaN" by (simp add: rowValue_def rowPred3PE_outside)
  then show ?thesis by (simp add: rowKept_def split: option.splits)
qed

lemma joinRow_by_rowKept:
  "joinRow geoIdIndex pred3PEIndex pred3PEMap line =
     (if rowKept geoIdIndex pred3PEIndex line
      then obj_set pred3PEMap (rowKey geoIdIndex line) (rowValue pred3PEIndex line)
      else pred3PEMap)"
proof (cases "trim line = []")
  case True
  then show ?thesis by (simp add: joinRow_def rowKept_blank)
next
  case False
  show ?thesis
  proof (cases "int (length (parseCSVLine line)) > max geoIdIndex pred3PEIndex")
    case long: True
    with False show ?thesis
      by (simp add: joinRow_def rowKept_def rowKey_def rowValue_def Let_def split: option.splits)
  next
    case short: False
    with False rowKept_short [OF short] show ?thesis
      by (auto simp: joinRow_def Let_def)
  qed
qed






















lemma joinRow_no_geoId_column: "joinRow (- 1) pred3PEIndex pred3PEMap line = pred3PEMap"
  by (simp add: joinRow_by_rowKept rowKept_def rowGeoId_outside)

lemma joinRow_no_pred3PE_column: "joinRow geoIdIndex (- 1) pred3PEMap line = pred3PEMap"
  by (simp add: joinRow_by_rowKept rowKept_def rowValue_def rowPred3PE_outside
           split: option.splits)

lemma foldl_unchanged: "(\<And>acc x. f acc x = acc) \<Longrightarrow> foldl f acc xs = acc"
  by (induction xs arbitrary: acc) simp_all

text \<open>
  Claim C6. When the header row lacks the identifier column \<^verbatim>\<open>GEO_ID\<close> or the value
  column \<^verbatim>\<open>PRED3_PE\<close>, the joiner returns normally with the empty mapping, whatever the
  data rows are.
\<close>

theorem loadPred3PE_inert_without_column:
  assumes "csvLines csvText = header # rows"
    and "''GEO_ID'' \<notin> set (parseCSVLine header) \<or> ''PRED3_PE'' \<notin> set (parseCSVLine header)"
  shows "loadPred3PE csvText = Inr Map.empty"
  using assms(2)
proof
  assume "''GEO_ID'' \<notin> set (parseCSVLine header)"
  then have "indexOf (parseCSVLine header) ''GEO_ID'' = - 1" by (rule indexOf_absent)
  with assms(1) show ?thesis
    by (simp add: loadPred3PE_def Let_def joinRow_no_geoId_column foldl_unchanged)
next
  assume "''PRED3_PE'' \<notin> set (parseCSVLine header)"
  then have "indexOf (parseCSVLine header) ''PRED3_PE'' = - 1" by (rule indexOf_absent)
  with assms(1) show ?thesis
    by (simp add: loadPred3PE_def Let_def joinRow_no_pred3PE_column foldl_unchanged)
qed

theorem loadPred3PE_inert_without_column_witness:
  "csvLines exampleCsvNoGeoId = [''TRACT,PRED3_PE'', exampleRow] \<and>
   parseCSVLine ''TRACT,PRED3_PE'' = [''TRACT'', ''PRED3_PE''] \<and>
   loadPred3PE exampleCsvNoGeoId = Inr Map.empty"
proof -
  have l: "csvLines exampleCsvNoGeoId = ''TRACT,PRED3_PE'' # [exampleRow]"
    by (simp add: csvLines_def exampleCsvNoGeoId_def exampleRow_def js_string_defs)
  have p: "parseCSVLine ''TRACT,PRED3_PE'' = [''TRACT'', ''PRED3_PE'']"
    by (simp add: parseCSVLine_def js_string_defs)
  have h: "''GEO_ID'' \<notin> set (parseCSVLine ''TRACT,PRED3_PE'') \<or>
           ''PRED3_PE'' \<notin> set (parseCSVLine ''TRACT,PRED3_PE'')"
    unfolding p by simp
  from loadPred3PE_inert_without_column [OF l h] l p show ?thesis by simp
qed

section \<open>Properties of the Feature Classifier\<close>

lemma map_of_setProp: "map_of (setProp ps key v) = (map_of ps)(key \<mapsto> v)"
  by (induction ps key v rule: setProp.induct) (auto simp: fun_eq_iff)

lemma keys_setProp: "fst ` set (setProp ps key v) = insert key (fst ` set ps)"
  by (induction ps key v rule: setProp.induct) auto

lemma getProp_setProp:
  "getProp (setProp ps key v) k = (if k = key then v else getProp ps k)"
  by (simp add: getProp_def map_of_setProp)

lemma processedFeatures_nth:
  assumes "i < length (inputFeatures fc)"
  shows "processedFeatures fmt pred3PEData fc ! i =
         processFeature fmt pred3PEData i (inputFeatures fc ! i)"
  using assms by (simp add: processedFeatures_def nth_enumerate_eq)

lemma processedFeatures_length:
  "length (processedFeatures fmt pred3PEData fc) = length (inputFeatures fc)"
  by (simp add: processedFeatures_def)

lemma processFeature_frame:
  "processFeature fmt pred3PEData i f =
     f\<lparr>fid := fid (processFeature fmt pred3PEData i f),
       properties := properties (processFeature fmt pred3PEData i f)\<rparr>"
  by (simp add: processFeature_def)

lemma processFeature_props:
  "featureProps (processFeature fmt pred3PEData i f) =
     setProp (setProp (setProp (featureProps f) ''__riskRating'' (enrichRisk f))
                ''__population'' (enrichPopulation fmt f))
       ''__pred3PE'' (enrichPred3PE fmt pred3PEData f)"
  by (simp add: processFeature_def featureProps_def)

lemma processFeature_getProp:
  "getProp (featureProps (processFeature fmt pred3PEData i f)) k =
     (if k = ''__pred3PE'' then enrichPred3PE fmt pred3PEData f
      else if k = ''__population'' then enrichPopulation fmt f
      else if k = ''__riskRating'' then enrichRisk f
      else getProp (featureProps f) k)"
  by (simp add: processFeature_props getProp_setProp)

lemma processFeature_keys:
  "fst ` set (featureProps (processFeature fmt pred3PEData i f)) =
     fst ` set (featureProps f) \<union> enrichmentKeys"
  by (auto simp: processFeature_props keys_setProp enrichmentKeys_def)

lemma obj_get_no_member:
  "pred3PEData key = None \<Longrightarrow> objectPrototypeMember key = None \<Longrightarrow>
   obj_get pred3PEData key = JUndefined"
  by (simp add: obj_get_def)

lemma enrich_missing:
  "getProp (featureProps f) riskKey = JUndefined \<or> getProp (featureProps f) riskKey = JNull
     \<Longrightarrow> enrichRisk f = JNull"
  "getProp (featureProps f) populationKey = JUndefined \<or>
   getProp (featureProps f) populationKey = JNull
     \<Longrightarrow> enrichPopulation fmt f = JNull"
  "getProp (featureProps f) geoidKey = JUndefined \<or> getProp (featureProps f) geoidKey = JNull
     \<Longrightarrow> enrichPred3PE fmt pred3PEData f = JNull"
  "pred3PEData (js_String fmt (getProp (featureProps f) geoidKey)) = None \<Longrightarrow>
   objectPrototypeMember (js_String fmt (getProp (featureProps f) geoidKey)) = None
     \<Longrightarrow> enrichPred3PE fmt pred3PEData f = JNull"
  by (auto simp: enrichRisk_def enrichPopulation_def enrichPred3PE_def featureGeoid_def
                 parseNumericValue_def numberOrNull_def Let_def obj_get_no_member)

lemma exampleTracts_features: "inputFeatures exampleTracts = [tractA, tractB, tractC]"
  by (simp add: exampleTracts_def exampleTractList_def inputFeatures_def)

lemma exampleTract_props:
  "featureProps tractA = [(riskKey, JStr ''Very High''), (geoidKey, JStr ''12086000107''),
                          (populationKey, JStr ''4,321'')]"
  "featureProps tractB = [(geoidKey, JStr ''12086000108''), (''__riskRating'', JStr ''stale'')]"
  "featureProps tractC = []"
  by (simp_all add: tractA_def tractB_def tractC_def tract_def featureProps_def)

lemma exampleTract_ids:
  "fid tractA = JNum (Fin 7)" "fid tractB = JUndefined" "fid tractC = JNull"
  by (simp_all add: tractA_def tractB_def tractC_def tract_def)

lemma exampleTract_getProp:
  "getProp (featureProps tractA) riskKey = JStr ''Very High''"
  "getProp (featureProps tractA) geoidKey = JStr ''12086000107''"
  "getProp (featureProps tractA) populationKey = JStr ''4,321''"
  "getProp (featureProps tractB) riskKey = JUndefined"
  "getProp (featureProps tractB) geoidKey = JStr ''12086000108''"
  "getProp (featureProps tractB) populationKey = JUndefined"
  "getProp (featureProps tractB) ''__riskRating'' = JStr ''stale''"
  "getProp (featureProps tractC) riskKey = JUndefined"
  "getProp (featureProps tractC) geoidKey = JUndefined"
  "getProp (featureProps tractC) populationKey = JUndefined"
  by (simp_all add: exampleTract_props getProp_def key_defs)

lemma obj_get_empty_digits:
  "obj_get Map.empty ''12086000107'' = JUndefined"
  "obj_get Map.empty ''12086000108'' = JUndefined"
  by (simp_all add: obj_get_def objectPrototypeMember_def)

lemma exampleTract_pred3PE:
  "enrichPred3PE noFormat Map.empty tractA = JNull"
  "enrichPred3PE noFormat Map.empty tractB = JNull"
  "enrichPred3PE noFormat Map.empty tractC = JNull"
  by (simp_all add: enrichPred3PE_def featureGeoid_def exampleTract_getProp obj_get_empty_digits)

lemma exampleTracts_processed:
  "processedFeatures noFormat Map.empty exampleTracts =
     [processFeature noFormat Map.empty 0 tractA,
      processFeature noFormat Map.empty 1 tractB,
      processFeature noFormat Map.empty 2 tractC]"
  by (simp add: processedFeatures_def exampleTracts_features numeral_2_eq_2)

lemma exampleTracts_no_samples:
  "pred3PEValues (processedFeatures noFormat Map.empty exampleTracts) = []"
  by (simp add: pred3PEValues_def exampleTracts_processed processFeature_getProp
                exampleTract_pred3PE List.map_filter_simps)

lemma exampleOddTracts_features: "inputFeatures exampleOddTracts = [tractD]"
  by (simp add: exampleOddTracts_def inputFeatures_def)

lemma tractD_getProp:
  "getProp (featureProps tractD) geoidKey = JStr ''constructor''"
  "getProp (featureProps tractD) populationKey = JStr ''N/A''"
  by (simp_all add: tractD_def tract_def featureProps_def getProp_def key_defs)

lemma tractD_enriched:
  "enrichPred3PE noFormat Map.empty tractD = JOpaque ''function Object() { [native code] }''"
  "enrichPopulation noFormat tractD = JNum (Fin 0)"
proof -
  show "enrichPred3PE noFormat Map.empty tractD = JOpaque ''function Object() { [native code] }''"
    by (simp add: enrichPred3PE_def featureGeoid_def tractD_getProp obj_get_def
                  objectPrototypeMember_def)
  have "parseNumericValue noFormat (JStr ''N/A'') = Some 0"
    by (simp add: parseNumericValue_def keptChar_def js_string_defs js_number_defs)
  then show "enrichPopulation noFormat tractD = JNum (Fin 0)"
    by (simp add: enrichPopulation_def tractD_getProp numberOrNull_def)
qed

text \<open>
  Claim C8, as stated: the pre-existing property entries of every feature are unchanged,
  and each enrichment field is null when the corresponding source data is missing. It
  fails in the first part for a feature that already has a property named like an
  enrichment field: the second example tract has \<^verbatim>\<open>__riskRating\<close> set to \<^verbatim>\<open>stale\<close>
  and no risk rating, and comes out with \<^verbatim>\<open>__riskRating\<close> null. It fails in the second
  part for the tract \<open>tractD\<close> classified against an empty side table: the side table has
  no entry for any GEOID, yet the lookup under \<^verbatim>\<open>constructor\<close> finds the member that
  every object inherits and \<^verbatim>\<open>__pred3PE\<close> is that function, not null; and its population
  \<^verbatim>\<open>N/A\<close>, which holds no number, comes out as 0, not null.
\<close>

theorem classifier_overwrites_existing_property:
  "inputFeatures exampleTracts ! 1 = tractB \<and>
   getProp (featureProps tractB) ''__riskRating'' = JStr ''stale'' \<and>
   getProp (featureProps (processedFeatures noFormat Map.empty exampleTracts ! 1)) ''__riskRating'' = JNull \<and>
   inputFeatures exampleOddTracts ! 0 = tractD \<and>
   getProp (featureProps tractD) geoidKey = JStr ''constructor'' \<and>
   getProp (featureProps (processedFeatures noFormat Map.empty exampleOddTracts ! 0)) ''__pred3PE'' =
     JOpaque ''function Object() { [native code] }'' \<and>
   getProp (featureProps tractD) populationKey = JStr ''N/A'' \<and>
   getProp (featureProps (processedFeatures noFormat Map.empty exampleOddTracts ! 0)) ''__population'' =
     JNum (Fin 0)"
proof -
  have "enrichRisk tractB = JNull"
    by (simp add: enrichRisk_def exampleTract_getProp)
  then have a: "getProp (featureProps (processedFeatures noFormat Map.empty exampleTracts ! 1))
               ''__riskRating'' = JNull"
    by (simp add: exampleTracts_processed processFeature_getProp)
  have b: "inputFeatures exampleTracts ! 1 = tractB" by (simp add: exampleTracts_features)
  have c: "inputFeatures exampleOddTracts ! 0 = tractD" by (simp add: exampleOddTracts_features)
  have odd: "processedFeatures noFormat Map.empty exampleOddTracts =
             [processFeature noFormat Map.empty 0 tractD]"
    by (simp add: processedFeatures_def exampleOddTracts_features)
  have d: "getProp (featureProps (processedFeatures noFormat Map.empty exampleOddTracts ! 0)) ''__pred3PE'' =
     JOpaque ''function Object() { [native code] }''"
    by (simp add: odd processFeature_getProp tractD_enriched)
  have e: "getProp (featureProps (processedFeatures noFormat Map.empty exampleOddTracts ! 0)) ''__population'' =
     JNum (Fin 0)"
    by (simp add: odd processFeature_getProp tractD_enriched)
  from b exampleTract_getProp(7) a c tractD_getProp(1) d tractD_getProp(2) e
  show ?thesis by (intro conjI)
qed

text \<open>
  Claim C8, amended. For every input collection, the classifier's output has exactly one
  feature per input feature, in the same order: the feature at index \<open>i\<close> is made from
  the input feature at index \<open>i\<close>, and none is dropped. Each output feature equals its
  input feature except for the id and the properties, so that its geometry is unchanged;
  its properties have the input's keys and the three enrichment keys; every property
  under another key is unchanged, while a pre-existing property named like an enrichment
  field is overwritten. \<^verbatim>\<open>__riskRating\<close> is null when the risk-rating property is absent
  or null; \<^verbatim>\<open>__population\<close> is null when the population property is absent or null;
  \<^verbatim>\<open>__pred3PE\<close> is null when the GEOID property is absent or null, and also when the side
  table has no entry of its own under the GEOID's string and that string does not name a
  member inherited from \<^verbatim>\<open>Object.prototype\<close>. What a population text without a number
  gives is left open here.
\<close>

theorem classifier_frame:
  "length (processedFeatures fmt pred3PEData fc) = length (inputFeatures fc) \<and>
   features (processedGeojson fmt pred3PEData fc) = Some (processedFeatures fmt pred3PEData fc) \<and>
   cothers (processedGeojson fmt pred3PEData fc) = cothers fc \<and>
   (i < length (inputFeatures fc) \<longrightarrow>
      processedFeatures fmt pred3PEData fc ! i =
        (inputFeatures fc ! i)\<lparr>fid := fid (processedFeatures fmt pred3PEData fc ! i),
                 properties := properties (processedFeatures fmt pred3PEData fc ! i)\<rparr> \<and>
      geometry (processedFeatures fmt pred3PEData fc ! i) = geometry (inputFeatures fc ! i) \<and>
      properties (processedFeatures fmt pred3PEData fc ! i) \<noteq> None \<and>
      fst ` set (featureProps (processedFeatures fmt pred3PEData fc ! i)) =
        fst ` set (featureProps (inputFeatures fc ! i)) \<union> enrichmentKeys \<and>
      (\<forall>k. k \<notin> enrichmentKeys \<longrightarrow>
           getProp (featureProps (processedFeatures fmt pred3PEData fc ! i)) k =
           getProp (featureProps (inputFeatures fc ! i)) k) \<and>
      (getProp (featureProps (inputFeatures fc ! i)) riskKey = JUndefined \<or>
       getProp (featureProps (inputFeatures fc ! i)) riskKey = JNull \<longrightarrow>
         getProp (featureProps (processedFeatures fmt pred3PEData fc ! i)) ''__riskRating'' = JNull) \<and>
      (getProp (featureProps (inputFeatures fc ! i)) populationKey = JUndefined \<or>
       getProp (featureProps (inputFeatures fc ! i)) populationKey = JNull \<longrightarrow>
         getProp (featureProps (processedFeatures fmt pred3PEData fc ! i)) ''__population'' = JNull) \<and>
      (getProp (featureProps (inputFeatures fc ! i)) geoidKey = JUndefined \<or>
       getProp (featureProps (inputFeatures fc ! i)) geoidKey = JNull \<longrightarrow>
         getProp (featureProps (processedFeatures fmt pred3PEData fc ! i)) ''__pred3PE'' = JNull) \<and>
      (pred3PEData (js_String fmt (getProp (featureProps (inputFeatures fc ! i)) geoidKey)) = None \<and>
       objectPrototypeMember (js_String fmt (getProp (featureProps (inputFeatures fc ! i)) geoidKey)) =
         None \<longrightarrow>
         getProp (featureProps (processedFeatures fmt pred3PEData fc ! i)) ''__pred3PE'' = JNull))"
proof -
  have a: "length (processedFeatures fmt pred3PEData fc) = length (inputFeatures fc)"
    by (rule processedFeatures_length)
  have b: "features (processedGeojson fmt pred3PEData fc) = Some (processedFeatures fmt pred3PEData fc)"
    and c: "cothers (processedGeojson fmt pred3PEData fc) = cothers fc"
    by (simp_all add: processedGeojson_def)
  have rest: "processedFeatures fmt pred3PEData fc ! i =
        (inputFeatures fc ! i)\<lparr>fid := fid (processedFeatures fmt pred3PEData fc ! i),
                 properties := properties (processedFeatures fmt pred3PEData fc ! i)\<rparr> \<and>
      geometry (processedFeatures fmt pred3PEData fc ! i) = geometry (inputFeatures fc ! i) \<and>
      properties (processedFeatures fmt pred3PEData fc ! i) \<noteq> None \<and>
      fst ` set (featureProps (processedFeatures fmt pred3PEData fc ! i)) =
        fst ` set (featureProps (inputFeatures fc ! i)) \<union> enrichmentKeys \<and>
      (\<forall>k. k \<notin> enrichmentKeys \<longrightarrow>
           getProp (featureProps (processedFeatures fmt pred3PEData fc ! i)) k =
           getProp (featureProps (inputFeatures fc ! i)) k) \<and>
      (getProp (featureProps (inputFeatures fc ! i)) riskKey = JUndefined \<or>
       getProp (featureProps (inputFeatures fc ! i)) riskKey = JNull \<longrightarrow>
         getProp (featureProps (processedFeatures fmt pred3PEData fc ! i)) ''__riskRating'' = JNull) \<and>
      (getProp (featureProps (inputFeatures fc ! i)) populationKey = JUndefined \<or>
       getProp (featureProps (inputFeatures fc ! i)) populationKey = JNull \<longrightarrow>
         getProp (featureProps (processedFeatures fmt pred3PEData fc ! i)) ''__population'' = JNull) \<and>
      (getProp (featureProps (inputFeatures fc ! i)) geoidKey = JUndefined \<or>
       getProp (featureProps (inputFeatures fc ! i)) geoidKey = JNull \<longrightarrow>
         getProp (featureProps (processedFeatures fmt pred3PEData fc ! i)) ''__pred3PE'' = JNull) \<and>
      (pred3PEData (js_String fmt (getProp (featureProps (inputFeatures fc ! i)) geoidKey)) = None \<and>
       objectPrototypeMember (js_String fmt (getProp (featureProps (inputFeatures fc ! i)) geoidKey)) =
         None \<longrightarrow>
         getProp (featureProps (processedFeatures fmt pred3PEData fc ! i)) ''__pred3PE'' = JNull)"
    if i: "i < length (inputFeatures fc)"
  proof -
    note nth = processedFeatures_nth [OF i, of fmt pred3PEData]
    have d: "processedFeatures fmt pred3PEData fc ! i =
        (inputFeatures fc ! i)\<lparr>fid := fid (processedFeatures fmt pred3PEData fc ! i),
                 properties := properties (processedFeatures fmt pred3PEData fc ! i)\<rparr>"
      unfolding nth by (rule processFeature_frame)
    have d': "geometry (processedFeatures fmt pred3PEData fc ! i) = geometry (inputFeatures fc ! i)"
      unfolding nth by (simp add: processFeature_def)
    have e: "properties (processedFeatures fmt pred3PEData fc ! i) \<noteq> None"
      unfolding nth by (simp add: processFeature_def)
    have f: "fst ` set (featureProps (processedFeatures fmt pred3PEData fc ! i)) =
             fst ` set (featureProps (inputFeatures fc ! i)) \<union> enrichmentKeys"
      unfolding nth by (rule processFeature_keys)
    have g: "\<forall>k. k \<notin> enrichmentKeys \<longrightarrow>
                getProp (featureProps (processedFeatures fmt pred3PEData fc ! i)) k =
                getProp (featureProps (inputFeatures fc ! i)) k"
      unfolding nth by (simp add: processFeature_getProp enrichmentKeys_def)
    have h: "getProp (featureProps (inputFeatures fc ! i)) riskKey = JUndefined \<or>
             getProp (featureProps (inputFeatures fc ! i)) riskKey = JNull \<longrightarrow>
              getProp (featureProps (processedFeatures fmt pred3PEData fc ! i)) ''__riskRating'' = JNull"
      unfolding nth using enrich_missing(1) [of "inputFeatures fc ! i"]
      by (simp add: processFeature_getProp)
    have j: "getProp (featureProps (inputFeatures fc ! i)) populationKey = JUndefined \<or>
             getProp (featureProps (inputFeatures fc ! i)) populationKey = JNull \<longrightarrow>
              getProp (featureProps (processedFeatures fmt pred3PEData fc ! i)) ''__population'' = JNull"
      unfolding nth using enrich_missing(2) [of "inputFeatures fc ! i" fmt]
      by (simp add: processFeature_getProp)
    have k: "getProp (featureProps (inputFeatures fc ! i)) geoidKey = JUndefined \<or>
             getProp (featureProps (inputFeatures fc ! i)) geoidKey = JNull \<longrightarrow>
              getProp (featureProps (processedFeatures fmt pred3PEData fc ! i)) ''__pred3PE'' = JNull"
      unfolding nth using enrich_missing(3) [of "inputFeatures fc ! i" fmt pred3PEData]
      by (simp add: processFeature_getProp)
    have l: "pred3PEData (js_String fmt (getProp (featureProps (inputFeatures fc ! i)) geoidKey)) = None \<and>
       objectPrototypeMember (js_String fmt (getProp (featureProps (inputFeatures fc ! i)) geoidKey)) =
         None \<longrightarrow>
         getProp (featureProps (processedFeatures fmt pred3PEData fc ! i)) ''__pred3PE'' = JNull"
      unfolding nth using enrich_missing(4) [of pred3PEData fmt "inputFeatures fc ! i"]
      by (simp add: processFeature_getProp)
    from d d' e f g h j k l show ?thesis by (intro conjI)
  qed
  from a b c rest show ?thesis by blast
qed

theorem classifier_frame_witness:
  "inputFeatures exampleTracts = [tractA, tractB, tractC] \<and>
   length (processedFeatures noFormat Map.empty exampleTracts) = 3 \<and>
   geometry (processedFeatures noFormat Map.empty exampleTracts ! 0) = geometry tractA \<and>
   getProp (featureProps (processedFeatures noFormat Map.empty exampleTracts ! 0)) riskKey = JStr ''Very High'' \<and>
   fst ` set (featureProps (processedFeatures noFormat Map.empty exampleTracts ! 0)) =
     {riskKey, geoidKey, populationKey, ''__riskRating'', ''__population'', ''__pred3PE''} \<and>
   objectPrototypeMember ''12086000107'' = None \<and>
   getProp (featureProps (processedFeatures noFormat Map.empty exampleTracts ! 0)) ''__pred3PE'' = JNull \<and>
   getProp (featureProps tractC) riskKey = JUndefined \<and>
   getProp (featureProps (processedFeatures noFormat Map.empty exampleTracts ! 2)) ''__riskRating'' = JNull \<and>
   getProp (featureProps tractC) populationKey = JUndefined \<and>
   getProp (featureProps (processedFeatures noFormat Map.empty exampleTracts ! 2)) ''__population'' = JNull \<and>
   getProp (featureProps tractC) geoidKey = JUndefined \<and>
   getProp (featureProps (processedFeatures noFormat Map.empty exampleTracts ! 2)) ''__pred3PE'' = JNull"
proof -
  note fr = classifier_frame [of noFormat Map.empty exampleTracts 0, unfolded exampleTracts_features]
  note fr2 = classifier_frame [of noFormat Map.empty exampleTracts 2, unfolded exampleTracts_features]
  have keyNot: "riskKey \<notin> enrichmentKeys" by (simp add: enrichmentKeys_def key_defs)
  have proto: "objectPrototypeMember ''12086000107'' = None"
    by (simp add: objectPrototypeMember_def)
  from fr have l: "length (processedFeatures noFormat Map.empty exampleTracts) = 3"
    by simp
  from fr have g: "geometry (processedFeatures noFormat Map.empty exampleTracts ! 0) = geometry tractA"
    by simp
  from fr keyNot have r: "getProp (featureProps (processedFeatures noFormat Map.empty exampleTracts ! 0)) riskKey
      = JStr ''Very High''"
    by (simp add: exampleTract_getProp)
  from fr have k: "fst ` set (featureProps (processedFeatures noFormat Map.empty exampleTracts ! 0)) =
     {riskKey, geoidKey, populationKey, ''__riskRating'', ''__population'', ''__pred3PE''}"
    by (auto simp: exampleTract_props enrichmentKeys_def)
  from fr proto have p: "getProp (featureProps (processedFeatures noFormat Map.empty exampleTracts ! 0)) ''__pred3PE'' = JNull"
    by (simp add: exampleTract_getProp noFormat_def)
  from fr2 have c1: "getProp (featureProps (processedFeatures noFormat Map.empty exampleTracts ! 2)) ''__riskRating'' = JNull"
    and c2: "getProp (featureProps (processedFeatures noFormat Map.empty exampleTracts ! 2)) ''__population'' = JNull"
    and c3: "getProp (featureProps (processedFeatures noFormat Map.empty exampleTracts ! 2)) ''__pred3PE'' = JNull"
    by (simp_all add: exampleTract_getProp)
  from exampleTracts_features l g r k proto p exampleTract_getProp(8) c1
       exampleTract_getProp(10) c2 exampleTract_getProp(9) c3
  show ?thesis by (intro conjI)
qed

text \<open>
  Claim C9. The classifier assigns each feature's identifier by first match: the
  source-declared id when it is neither null nor undefined, else the GEOID property when
  it is neither null nor undefined, else the feature's index in the input sequence.
\<close>

theorem classifier_identifier:
  assumes "i < length (inputFeatures fc)"
  shows "fid (processedFeatures fmt pred3PEData fc ! i) =
           (if fid (inputFeatures fc ! i) \<noteq> JNull \<and> fid (inputFeatures fc ! i) \<noteq> JUndefined
            then fid (inputFeatures fc ! i)
            else if getProp (featureProps (inputFeatures fc ! i)) geoidKey \<noteq> JNull \<and>
                    getProp (featureProps (inputFeatures fc ! i)) geoidKey \<noteq> JUndefined
                 then getProp (featureProps (inputFeatures fc ! i)) geoidKey
                 else JNum (Fin (real i)))"
  unfolding processedFeatures_nth [OF assms]
  by (simp add: processFeature_def coalesce_def featureGeoid_def)

theorem classifier_identifier_witness:
  "inputFeatures exampleTracts = [tractA, tractB, tractC] \<and>
   fid tractA = JNum (Fin 7) \<and> fid tractB = JUndefined \<and> fid tractC = JNull \<and>
   fid (processedFeatures noFormat Map.empty exampleTracts ! 0) = JNum (Fin 7) \<and>
   fid (processedFeatures noFormat Map.empty exampleTracts ! 1) = JStr ''12086000108'' \<and>
   fid (processedFeatures noFormat Map.empty exampleTracts ! 2) = JNum (Fin 2)"
proof -
  have l0: "0 < length (inputFeatures exampleTracts)"
    and l1: "1 < length (inputFeatures exampleTracts)"
    and l2: "2 < length (inputFeatures exampleTracts)"
    by (simp_all add: exampleTracts_features)
  from classifier_identifier [OF l0, of noFormat Map.empty]
       classifier_identifier [OF l1, of noFormat Map.empty]
       classifier_identifier [OF l2, of noFormat Map.empty]
  show ?thesis
    by (simp add: exampleTracts_features exampleTract_ids exampleTract_getProp)
qed

section \<open>Properties of the Statistics Builder and the colour expression\<close>

lemma evalExpr_flat_case:
  "evalExpr ps (Case pred3PETest (Lit (JStr c)) (Lit (JStr c))) = MVal (JStr c)"
  by (simp add: pred3PETest_def split: option.splits bool.splits)

lemma buildPred3PEColorExpression_no_stats:
  "buildPred3PEColorExpression (Some \<lparr>rmin = None, rmid = None, rmax = None\<rparr>) =
     Case pred3PETest (Lit (JStr fallbackColor)) (Lit (JStr fallbackColor))"
  by (simp add: buildPred3PEColorExpression_def fallbackColor_def)

text \<open>
  Claim C7. For every list of classified features with no qualifying sample of
  \<^verbatim>\<open>__pred3PE\<close>, \<^verbatim>\<open>getRangeStats\<close> returns null for the minimum, the midpoint and the
  maximum, and the colour expression built from these statistics evaluates to the fallback
  colour on every property bag \<open>ps\<close>, whatever value it holds under \<^verbatim>\<open>__pred3PE\<close>.
\<close>

theorem no_samples_fallback_color:
  assumes "pred3PEValues processed = []"
  shows "getRangeStats (pred3PEValues processed) = \<lparr>rmin = None, rmid = None, rmax = None\<rparr> \<and>
         pred3PE (buildStats processed) = Some \<lparr>rmin = None, rmid = None, rmax = None\<rparr> \<and>
         evalExpr ps (buildPred3PEColorExpression (pred3PE (buildStats processed))) =
           MVal (JStr fallbackColor)"
proof -
  have range: "getRangeStats (pred3PEValues processed) = \<lparr>rmin = None, rmid = None, rmax = None\<rparr>"
    using assms by simp
  then have stats: "pred3PE (buildStats processed) = Some \<lparr>rmin = None, rmid = None, rmax = None\<rparr>"
    by (simp add: buildStats_def)
  have "evalExpr ps (buildPred3PEColorExpression (pred3PE (buildStats processed))) =
           MVal (JStr fallbackColor)"
    by (simp only: stats buildPred3PEColorExpression_no_stats evalExpr_flat_case)
  with range stats show ?thesis by (intro conjI)
qed

theorem no_samples_fallback_color_witness:
  "pred3PEValues (processedFeatures noFormat Map.empty exampleTracts) = [] \<and>
   pred3PE (buildStats (processedFeatures noFormat Map.empty exampleTracts)) =
     Some \<lparr>rmin = None, rmid = None, rmax = None\<rparr> \<and>
   evalExpr [(''__pred3PE'', JNum (Fin 5))]
     (buildPred3PEColorExpression (pred3PE (buildStats (processedFeatures noFormat Map.empty exampleTracts)))) =
     MVal (JStr ''#9e9e9e'')"
proof -
  note w = no_samples_fallback_color [OF exampleTracts_no_samples, of "[(''__pred3PE'', JNum (Fin 5))]"]
  from w have a: "pred3PE (buildStats (processedFeatures noFormat Map.empty exampleTracts)) =
     Some \<lparr>rmin = None, rmid = None, rmax = None\<rparr>"
    by blast
  from w have b: "evalExpr [(''__pred3PE'', JNum (Fin 5))]
     (buildPred3PEColorExpression (pred3PE (buildStats (processedFeatures noFormat Map.empty exampleTracts)))) =
     MVal (JStr ''#9e9e9e'')"
    unfolding fallbackColor_def by blast
  from exampleTracts_no_samples a b show ?thesis by (intro conjI)
qed

section \<open>Properties of the point-in-polygon test\<close>

lemma loop_same_side:
  assumes "\<forall>i < length cs. \<forall>k < length cs. (snd (cs ! i) > lat) = (snd (cs ! k) > lat)"
    and "i < length cs \<longrightarrow> j < length cs"
  shows "isPointInDistrict_loop lng lat cs i j inside = inside"
  using assms
proof (induction lng lat cs i j inside rule: isPointInDistrict_loop.induct)
  case (1 lng lat cs i j inside)
  note side = "1.prems"(1)
  show ?case
  proof (cases "i < length cs")
    case False
    then show ?thesis by (simp add: isPointInDistrict_loop.simps)
  next
    case True
    with "1.prems" have jl: "j < length cs" by simp
    obtain xi yi where vi: "cs ! i = (xi, yi)" by (cases "cs ! i")
    obtain xj yj where vj: "cs ! j = (xj, yj)" by (cases "cs ! j")
    from side True jl have "(snd (cs ! i) > lat) = (snd (cs ! j) > lat)"
      by blast
    with vi vj have same: "(yi > lat) = (yj > lat)" by simp
    have "isPointInDistrict_loop lng lat cs (i + 1) i
            (if ((yi > lat) \<noteq> (yj > lat)) \<and> (lng < (xj - xi) * (lat - yi) / (yj - yi) + xi)
             then \<not> inside else inside) =
          (if ((yi > lat) \<noteq> (yj > lat)) \<and> (lng < (xj - xi) * (lat - yi) / (yj - yi) + xi)
             then \<not> inside else inside)"
      using "1.IH"[OF True refl vi[symmetric] refl vj[symmetric] refl side] True
      by simp
    then have step: "isPointInDistrict_loop lng lat cs (i + 1) i inside = inside"
      using same by simp
    show ?thesis
      using True vi vj same step
      by (subst isPointInDistrict_loop.simps) simp
  qed
qed

text \<open>
  Claim C10. For every polygon vertex list and every query point whose latitude is strictly
  greater than the latitude of every vertex, or strictly less than the latitude of every
  vertex, \<^verbatim>\<open>isPointInDistrict\<close> returns false: the point is classified as outside.
\<close>

theorem isPointInDistrict_outside_latitude_band:
  assumes "(\<forall>v \<in> set districtCoords. snd v < lat) \<or> (\<forall>v \<in> set districtCoords. lat < snd v)"
  shows "\<not> isPointInDistrict (lng, lat) districtCoords"
proof -
  have side: "\<forall>i < length districtCoords. \<forall>k < length districtCoords.
          (snd (districtCoords ! i) > lat) = (snd (districtCoords ! k) > lat)"
  proof (intro allI impI)
    fix i k assume "i < length districtCoords" "k < length districtCoords"
    then have "districtCoords ! i \<in> set districtCoords" "districtCoords ! k \<in> set districtCoords"
      by simp_all
    with assms show "(snd (districtCoords ! i) > lat) = (snd (districtCoords ! k) > lat)"
      by fastforce
  qed
  have "0 < length districtCoords \<longrightarrow> length districtCoords - 1 < length districtCoords"
    by simp
  from loop_same_side [OF side this] show ?thesis
    unfolding isPointInDistrict_def by simp
qed

theorem isPointInDistrict_outside_latitude_band_witness:
  "snd (0, 0) < (2::real) \<and> snd (1, 0) < (2::real) \<and> snd (1, 1) < (2::real) \<and>
   snd (0, 1) < (2::real) \<and>
   \<not> isPointInDistrict (1 / 2, 2) [(0, 0), (1, 0), (1, 1), (0, 1)]"
proof -
  have hyp: "(\<forall>v \<in> set [(0, 0), (1, 0), (1, 1), (0, 1)]. snd v < (2::real)) \<or>
    (\<forall>v \<in> set [(0, 0), (1, 0), (1, 1), (0, 1)]. (2::real) < snd v)"
    by simp
  from isPointInDistrict_outside_latitude_band [OF hyp, of "1 / 2"]
  show ?thesis by simp
qed

end
